theory Spec2Isabelle
  imports Main
begin

section \<open>The editor component of the blog application\<close>

text \<open>
  The development follows \<^verbatim>\<open>src/blogs-app/components/editor/index.tsx\<close>. The
  component \<^verbatim>\<open>Editor\<close> keeps six pieces of React state and a handle on the
  document engine; every handler of the component becomes a function from the state
  before the handler runs to the state after it. A handler is a closure of the render
  that created it, so where it reads a state cell and may run against a later state,
  the value it reads is an argument of its own.

  The document engine itself (\<^verbatim>\<open>useEditor\<close>, \<^verbatim>\<open>getHTML\<close>,
  \<^verbatim>\<open>commands.setContent\<close>, \<^verbatim>\<open>getMarkRange\<close>, \<^verbatim>\<open>chain\<close>) is imported from the
  packages \<^verbatim>\<open>@tiptap/*\<close>. The handlers below take the two engine functions they call
  as arguments, over an arbitrary type \<open>'doc\<close> of documents.
\<close>

subsection \<open>Data\<close>

text \<open>
  \<^verbatim>\<open>SeoResult\<close> is imported from \<^verbatim>\<open>./SEOForm\<close>. Its fields are the three that the
  component reads from it (lines 142 and 143) and that the initial post gives besides
  \<^verbatim>\<open>title\<close> and \<^verbatim>\<open>content\<close> (lines 41 to 47).
\<close>

record SeoResult =
  meta :: string
  slug :: string
  tags :: string

text \<open>The browser's \<^verbatim>\<open>File\<close>, of which the component only passes values on.\<close>

datatype browser_file = File string

text \<open>\<^verbatim>\<open>thumbnail?: File | string\<close>\<close>

datatype thumbnail_value = ThumbnailFile browser_file | ThumbnailUrl string

text \<open>\<^verbatim>\<open>interface FinalPost extends SeoResult\<close>\<close>

record FinalPost = SeoResult +
  title :: string
  content :: string
  thumbnail :: "thumbnail_value option"

text \<open>\<^verbatim>\<open>Range\<close> of the engine: the two ends of a span of positions.\<close>

record Range =
  range_from :: nat
  range_to :: nat

text \<open>An entry of the gallery, \<^verbatim>\<open>{ src: string }\<close>.\<close>

record gallery_image =
  src :: string

text \<open>
  The state of the component: the six \<^verbatim>\<open>useState\<close> cells in the order of lines 36 to
  47, and the value of \<^verbatim>\<open>useEditor\<close>, which is \<^verbatim>\<open>null\<close> until the engine exists and
  holds the live document afterwards.
\<close>

record 'doc editor_state =
  selectionRange :: "Range option"
  showGallery :: bool
  uploading :: bool
  images :: "gallery_image list"
  seoInitialValue :: "SeoResult option"
  post :: FinalPost
  editor :: "'doc option"

definition initial_post :: FinalPost where
  "initial_post =
     \<lparr>meta = '''', slug = '''', tags = '''', title = '''', content = '''', thumbnail = None\<rparr>"

definition initial_state :: "'doc editor_state" where
  "initial_state =
     \<lparr>selectionRange = None, showGallery = False, uploading = False, images = [],
      seoInitialValue = None, post = initial_post, editor = None\<rparr>"

subsection \<open>Submitting\<close>

text \<open>
  \<^verbatim>\<open>handleSubmit\<close> (lines 78 to 81). The result is the argument that \<^verbatim>\<open>onSubmit\<close> is
  called with, and \<open>None\<close> when the handler returns without calling it. The state is
  not written.
\<close>

definition handleSubmit :: "('doc \<Rightarrow> string) \<Rightarrow> 'doc editor_state \<Rightarrow> FinalPost option" where
  "handleSubmit getHTML s =
     (case editor s of
        None \<Rightarrow> None
      | Some d \<Rightarrow> Some ((post s)\<lparr>content := getHTML d\<rparr>))"

subsection \<open>Requests to the gallery service\<close>

text \<open>
  The two requests of the component go through \<^verbatim>\<open>axios\<close>. A request either
  resolves with the data of the response or rejects; \<^verbatim>\<open>await\<close> on a rejected request
  throws, no handler of the component catches, so the rest of the handler does not run
  and the promise the handler returned rejects in turn.
\<close>

datatype 'a response = Rejected | Resolved 'a

text \<open>
  The component declares no error type of its own; the two constructors name the
  rejection by the request that raised it.
\<close>

datatype error = AssetListError | AssetUploadError

text \<open>
  \<^verbatim>\<open>fetchImages\<close> (lines 49 to 52). The argument is the outcome of
  \<^verbatim>\<open>axios.get("/api/images")\<close>, a resolved one carrying \<^verbatim>\<open>data.images\<close>. The result is
  the error the returned promise rejects with, if any, and the state afterwards.
\<close>

definition fetchImages ::
    "gallery_image list response \<Rightarrow> 'doc editor_state \<Rightarrow> error option \<times> 'doc editor_state" where
  "fetchImages resp s =
     (case resp of
        Rejected \<Rightarrow> (Some AssetListError, s)
      | Resolved imgs \<Rightarrow> (None, s\<lparr>images := imgs\<rparr>))"

text \<open>
  The effect run once on mount (lines 133 to 135) calls \<^verbatim>\<open>fetchImages\<close> and drops the
  promise.
\<close>

definition mount_effect :: "gallery_image list response \<Rightarrow> 'doc editor_state \<Rightarrow> 'doc editor_state" where
  "mount_effect resp s = snd (fetchImages resp s)"

text \<open>
  \<^verbatim>\<open>handleImageUpload\<close> (lines 54 to 61) runs in two parts, before and after the
  \<^verbatim>\<open>await\<close> of line 58. The part before sets \<^verbatim>\<open>uploading\<close>. The part after runs when
  the request has settled; the \<^verbatim>\<open>images\<close> it reads on line 60 is the constant of the
  render in which the handler was created, so it is passed on from the start of the call
  rather than read from the state at the end.
\<close>

definition upload_begin :: "'doc editor_state \<Rightarrow> 'doc editor_state" where
  "upload_begin s = s\<lparr>uploading := True\<rparr>"

definition upload_settle ::
    "gallery_image list \<Rightarrow> gallery_image response \<Rightarrow> 'doc editor_state
       \<Rightarrow> error option \<times> 'doc editor_state" where
  "upload_settle captured resp s =
     (case resp of
        Rejected \<Rightarrow> (Some AssetUploadError, s)
      | Resolved d \<Rightarrow> (None, s\<lparr>uploading := False, images := d # captured\<rparr>))"

text \<open>
  A call that nothing else interleaves with. The argument is the outcome of
  \<^verbatim>\<open>axios.post("/api/images", formData)\<close> for the file handed in.
\<close>

definition handleImageUpload ::
    "gallery_image response \<Rightarrow> 'doc editor_state \<Rightarrow> error option \<times> 'doc editor_state" where
  "handleImageUpload resp s = upload_settle (images s) resp (upload_begin s)"

subsection \<open>The draft\<close>

text \<open>
  The three update hooks (lines 63 to 68). Each is a closure of the render that created
  it: the \<^verbatim>\<open>post\<close> it spreads is the constant of that render, not the draft at the time
  of the call. The first argument \<open>p\<close> is that constant; the last argument is the state
  the call is applied to, of which \<^verbatim>\<open>setPost\<close> replaces the draft as a whole.
  \<^verbatim>\<open>updateSeoValue\<close> spreads a whole \<^verbatim>\<open>SeoResult\<close> over the copy.
\<close>

definition updateTitle :: "FinalPost \<Rightarrow> string \<Rightarrow> 'doc editor_state \<Rightarrow> 'doc editor_state" where
  "updateTitle p v s = s\<lparr>post := p\<lparr>title := v\<rparr>\<rparr>"

definition updateSeoValue ::
    "FinalPost \<Rightarrow> SeoResult \<Rightarrow> 'doc editor_state \<Rightarrow> 'doc editor_state" where
  "updateSeoValue p result s =
     s\<lparr>post := p\<lparr>meta := meta result, slug := slug result, tags := tags result\<rparr>\<rparr>"

definition updateThumbnail ::
    "FinalPost \<Rightarrow> browser_file \<Rightarrow> 'doc editor_state \<Rightarrow> 'doc editor_state" where
  "updateThumbnail p f s = s\<lparr>post := p\<lparr>thumbnail := Some (ThumbnailFile f)\<rparr>\<rparr>"



section \<open>Properties\<close>

subsection \<open>What the handlers compute\<close>

lemma handleImageUpload_Resolved:
  "handleImageUpload (Resolved d) s = (None, s\<lparr>uploading := False, images := d # images s\<rparr>)"
  by (simp add: handleImageUpload_def upload_begin_def upload_settle_def)

lemma handleImageUpload_Rejected:
  "handleImageUpload Rejected s = (Some AssetUploadError, s\<lparr>uploading := True\<rparr>)"
  by (simp add: handleImageUpload_def upload_begin_def upload_settle_def)



subsection \<open>Submitting is guarded\<close>

text \<open>
  C10. Submitting is guarded on the engine: while the engine has not been initialised,
  \<^verbatim>\<open>handleSubmit\<close> returns without calling \<^verbatim>\<open>onSubmit\<close>, whatever the draft holds.
\<close>

theorem handleSubmit_guarded:
  "editor s = None \<Longrightarrow> handleSubmit getHTML s = None"
  by (simp add: handleSubmit_def)

theorem handleSubmit_guarded_witness:
  "editor (initial_state :: string editor_state) = None
   \<and> handleSubmit (\<lambda>d. d) (initial_state :: string editor_state) = None"
  using handleSubmit_guarded [of "initial_state :: string editor_state" "\<lambda>d. d"]
  by (simp add: initial_state_def)

subsection \<open>The asset cache\<close>

text \<open>
  When the second upload is started by the handler of the render that follows the
  settling of the first, the list is the one wanted: \<open>b\<close>, then \<open>a\<close>, then the list
  cached before.
\<close>

lemma uploads_one_after_the_other:
  "fst (handleImageUpload (Resolved a) s) = None
   \<and> fst (handleImageUpload (Resolved b) (snd (handleImageUpload (Resolved a) s))) = None
   \<and> images (snd (handleImageUpload (Resolved b) (snd (handleImageUpload (Resolved a) s))))
       = b # a # images s"
proof -
  let ?s1 = "s\<lparr>uploading := False, images := a # images s\<rparr>"
  have first: "handleImageUpload (Resolved a) s = (None, ?s1)"
    by (rule handleImageUpload_Resolved)
  have second: "handleImageUpload (Resolved b) ?s1 = (None, ?s1\<lparr>images := b # a # images s\<rparr>)"
    by (simp add: handleImageUpload_Resolved)
  show ?thesis
    by (simp add: first second)
qed

text \<open>
  C4. Two successful uploads, evaluated where the second is started while the first is
  in flight. A settling upload writes its asset in front of the list its handler
  captured, whatever the cache holds by then. Started from a cache \<open>L\<close>, the first
  upload captures \<open>L\<close>; the second, started before the first settles, captures \<open>L\<close> too.
  The first resolves with \<open>a\<close>, then the second resolves with \<open>b\<close>, neither with an
  error, and the cache is \<open>b\<close> in front of \<open>L\<close>: the asset \<open>a\<close> is lost. From the empty
  cache the result is the one-element list of \<open>b.png\<close>, not \<open>b.png\<close> followed by
  \<open>a.png\<close>.
\<close>

theorem overlapping_uploads_lose_first:
  "images (snd (upload_settle captured (Resolved b) s')) = b # captured
   \<and> fst (upload_settle (images s) (Resolved a) (upload_begin (upload_begin s))) = None
   \<and> fst (upload_settle (images (upload_begin s)) (Resolved b)
             (snd (upload_settle (images s) (Resolved a) (upload_begin (upload_begin s))))) = None
   \<and> images (snd (upload_settle (images (upload_begin s)) (Resolved b)
             (snd (upload_settle (images s) (Resolved a) (upload_begin (upload_begin s))))))
       = b # images s
   \<and> images (snd (upload_settle (images (upload_begin (initial_state :: 'doc editor_state)))
             (Resolved \<lparr>src = ''b.png''\<rparr>)
             (snd (upload_settle (images (initial_state :: 'doc editor_state))
                    (Resolved \<lparr>src = ''a.png''\<rparr>)
                    (upload_begin (upload_begin (initial_state :: 'doc editor_state)))))))
       = [\<lparr>src = ''b.png''\<rparr>]
   \<and> images (snd (upload_settle (images (upload_begin (initial_state :: 'doc editor_state)))
             (Resolved \<lparr>src = ''b.png''\<rparr>)
             (snd (upload_settle (images (initial_state :: 'doc editor_state))
                    (Resolved \<lparr>src = ''a.png''\<rparr>)
                    (upload_begin (upload_begin (initial_state :: 'doc editor_state)))))))
       \<noteq> [\<lparr>src = ''b.png''\<rparr>, \<lparr>src = ''a.png''\<rparr>]"
proof -
  have settle: "\<And>L d (t :: 'x editor_state).
      upload_settle L (Resolved d) t = (None, t\<lparr>uploading := False, images := d # L\<rparr>)"
    by (simp add: upload_settle_def)
  have keeps: "\<And>t :: 'x editor_state. images (upload_begin t) = images t"
    by (simp add: upload_begin_def)
  have empty: "images (initial_state :: 'doc editor_state) = []"
    by (simp add: initial_state_def)
  show ?thesis
    by (simp add: settle keeps empty)
qed

text \<open>
  C5. A failed upload, evaluated: the error is handed to the caller, and the cached
  list, the draft, the live document and the selection are those of before. The state
  as a whole is not: from the initial state, where nothing is uploading, the failed
  upload ends in the initial state with \<^verbatim>\<open>uploading\<close> set, which is a different state.
\<close>

theorem upload_failure_evaluated:
  "fst (handleImageUpload Rejected s) = Some AssetUploadError
   \<and> images (snd (handleImageUpload Rejected s)) = images s
   \<and> post (snd (handleImageUpload Rejected s)) = post s
   \<and> editor (snd (handleImageUpload Rejected s)) = editor s
   \<and> selectionRange (snd (handleImageUpload Rejected s)) = selectionRange s
   \<and> snd (handleImageUpload Rejected (initial_state :: 'doc editor_state))
       = initial_state\<lparr>uploading := True\<rparr>
   \<and> snd (handleImageUpload Rejected (initial_state :: 'doc editor_state)) \<noteq> initial_state"
proof -
  have "uploading (initial_state\<lparr>uploading := True\<rparr> :: 'doc editor_state)
        \<noteq> uploading (initial_state :: 'doc editor_state)"
    by (simp add: initial_state_def)
  then have "(initial_state\<lparr>uploading := True\<rparr> :: 'doc editor_state) \<noteq> initial_state"
    by metis
  then show ?thesis
    by (simp add: handleImageUpload_Rejected)
qed

text \<open>
  C8, as stated, fails where it says that the failure surfaces. The mount effect is the
  only place where the component fetches the gallery, and it drops the promise of
  \<^verbatim>\<open>fetchImages\<close>: on the initial state, a fetch that fails leaves the component exactly
  as a fetch that succeeds with an empty gallery does, so the component holds nothing
  that tells the failure from a success.
\<close>

theorem mount_fetch_failure_unseen_counterexample:
  "mount_effect Rejected (initial_state :: unit editor_state)
     = mount_effect (Resolved []) (initial_state :: unit editor_state)"
proof -
  have failed: "mount_effect Rejected (initial_state :: unit editor_state) = initial_state"
    by (simp add: mount_effect_def fetchImages_def)
  have fetched: "mount_effect (Resolved []) (initial_state :: unit editor_state)
      = initial_state\<lparr>images := []\<rparr>"
    by (simp add: mount_effect_def fetchImages_def)
  have "(initial_state :: unit editor_state)\<lparr>images := []\<rparr> = initial_state"
    by (simp add: initial_state_def)
  with failed fetched show ?thesis
    by simp
qed

text \<open>
  C8, amended. A failed fetch of the gallery changes nothing in the component: the
  promise of \<^verbatim>\<open>fetchImages\<close> rejects with the state as it was, and the mount effect, which
  drops that promise, returns the state as it was. The cached list (empty or not), the
  draft and the live document are therefore those of before, and uploading and
  submitting afterwards do what they would have done without the failed fetch.
\<close>

theorem fetch_failure_leaves_state:
  "fst (fetchImages Rejected s) \<noteq> None
   \<and> snd (fetchImages Rejected s) = s
   \<and> mount_effect Rejected s = s
   \<and> images (mount_effect Rejected s) = images s
   \<and> post (mount_effect Rejected s) = post s
   \<and> editor (mount_effect Rejected s) = editor s
   \<and> handleImageUpload resp (mount_effect Rejected s) = handleImageUpload resp s
   \<and> handleSubmit getHTML (mount_effect Rejected s) = handleSubmit getHTML s"
proof -
  have rejected: "fetchImages Rejected s = (Some AssetListError, s)"
    by (simp add: fetchImages_def)
  then have same: "mount_effect Rejected s = s"
    by (simp add: mount_effect_def)
  from rejected same show ?thesis
    by simp
qed

text \<open>
  C9. The \<^verbatim>\<open>uploading\<close> flag around an upload, evaluated: it is set once the upload
  has started, and cleared when the upload resolves. When the upload is rejected it is
  still set, and stays so until some later upload resolves.
\<close>

theorem uploading_flag_after_upload:
  "uploading (upload_begin s)
   \<and> \<not> uploading (snd (handleImageUpload (Resolved a) s))
   \<and> uploading (snd (handleImageUpload Rejected s))
   \<and> uploading (snd (handleImageUpload Rejected (snd (handleImageUpload Rejected s))))
   \<and> \<not> uploading (snd (handleImageUpload (Resolved a) (snd (handleImageUpload Rejected s))))"
  by (simp add: upload_begin_def handleImageUpload_Resolved handleImageUpload_Rejected)

subsection \<open>The draft and its metadata\<close>




text \<open>
  What a hook writes when it is the hook of the render that shows the state it is
  applied to: its own fields, over the draft as it is. \<^verbatim>\<open>updateSeoValue\<close> always writes
  meta, slug and tags together, from the result of the SEO form.
\<close>

lemma hooks_of_the_current_render:
  assumes "p = post s"
  shows "post (updateTitle p v s) = (post s)\<lparr>title := v\<rparr>"
    and "post (updateThumbnail p f s) = (post s)\<lparr>thumbnail := Some (ThumbnailFile f)\<rparr>"
    and "post (updateSeoValue p res s)
          = (post s)\<lparr>meta := meta res, slug := slug res, tags := tags res\<rparr>"
  using assms by (simp_all add: updateTitle_def updateThumbnail_def updateSeoValue_def)

lemma hooks_leave_other_cells:
  "(updateTitle p v s)\<lparr>post := post s\<rparr> = s"
  "(updateThumbnail p f s)\<lparr>post := post s\<rparr> = s"
  "(updateSeoValue p res s)\<lparr>post := post s\<rparr> = s"
  by (simp_all add: updateTitle_def updateThumbnail_def updateSeoValue_def)

text \<open>
  When the component has rendered again between the two calls, the second hook spreads
  the draft the first one wrote, and both writes are in the draft.
\<close>

lemma hooks_of_successive_renders:
  "title (post (updateSeoValue (post (updateTitle p ''X'' s)) (res\<lparr>slug := ''y''\<rparr>)
                  (updateTitle p ''X'' s))) = ''X''"
  "slug (post (updateSeoValue (post (updateTitle p ''X'' s)) (res\<lparr>slug := ''y''\<rparr>)
                  (updateTitle p ''X'' s))) = ''y''"
  "content (post (updateSeoValue (post (updateTitle p ''X'' s)) (res\<lparr>slug := ''y''\<rparr>)
                  (updateTitle p ''X'' s))) = content p"
  "thumbnail (post (updateSeoValue (post (updateTitle p ''X'' s)) (res\<lparr>slug := ''y''\<rparr>)
                  (updateTitle p ''X'' s))) = thumbnail p"
  by (simp_all add: updateTitle_def updateSeoValue_def)

text \<open>
  C7. Two update hooks of one render, evaluated. Both spread the same \<open>p\<close>, the draft
  that render showed, so the second call replaces the draft by \<open>p\<close> with its own fields
  and the write of the first call is gone: after \<^verbatim>\<open>updateTitle\<close> and then
  \<^verbatim>\<open>updateSeoValue\<close> the title is that of \<open>p\<close> again, and after \<^verbatim>\<open>updateThumbnail\<close> and
  then \<^verbatim>\<open>updateTitle\<close> the thumbnail is that of \<open>p\<close> again. From the initial state, with
  the hooks of the first render, setting the title to \<open>X\<close> and then merging a result with
  slug \<open>y\<close> gives the initial draft with slug \<open>y\<close>: the title is empty, not \<open>X\<close>.
\<close>

theorem hooks_of_one_render_lose_first_write:
  "post (updateSeoValue p res (updateTitle p v s))
     = p\<lparr>meta := meta res, slug := slug res, tags := tags res\<rparr>
   \<and> title (post (updateSeoValue p res (updateTitle p v s))) = title p
   \<and> thumbnail (post (updateTitle p v (updateThumbnail p f s))) = thumbnail p
   \<and> post (updateSeoValue initial_post \<lparr>meta = '''', slug = ''y'', tags = ''''\<rparr>
             (updateTitle initial_post ''X'' (initial_state :: 'doc editor_state)))
       = initial_post\<lparr>slug := ''y''\<rparr>
   \<and> title (post (updateSeoValue initial_post \<lparr>meta = '''', slug = ''y'', tags = ''''\<rparr>
             (updateTitle initial_post ''X'' (initial_state :: 'doc editor_state))))
       \<noteq> ''X''"
proof -
  have second_wins: "post (updateSeoValue q r (updateTitle q w t))
      = q\<lparr>meta := meta r, slug := slug r, tags := tags r\<rparr>"
    for q r w and t :: "'x editor_state"
    by (simp add: updateSeoValue_def updateTitle_def)
  have reverted: "thumbnail (post (updateTitle p v (updateThumbnail p f s))) = thumbnail p"
    by (simp add: updateTitle_def updateThumbnail_def)
  have first_render: "initial_post\<lparr>meta := '''', slug := ''y'', tags := ''''\<rparr>
      = initial_post\<lparr>slug := ''y''\<rparr>"
    by (simp add: initial_post_def)
  have untitled: "title (initial_post\<lparr>slug := ''y''\<rparr>) \<noteq> ''X''"
    by (simp add: initial_post_def)
  show ?thesis
    using reverted first_render untitled by (simp add: second_wins)
qed

end
